theory Spec2Isabelle
  imports Complex_Main
begin

section \<open>Memento: document snapshots\<close>

text \<open>
  In the document a JavaScript \<open>number\<close> is a \<open>real\<close>: the history manager only copies
  the numeric fields. A string is a \<open>string\<close>. The clock \<open>Date.now()\<close> is an input of every
  operation that builds a memento: the argument \<open>now\<close> is what the clock returns during
  that call.
\<close>

record DocumentState =
  content :: string
  fontSize :: real
  lineSpacing :: real
  fontFamily :: string

record DocumentMemento =
  timestamp :: nat
  state :: DocumentState

text \<open>The constructor of \<open>DocumentMemento\<close>: it keeps a copy of the state and reads the clock.\<close>

definition new_DocumentMemento :: "nat \<Rightarrow> DocumentState \<Rightarrow> DocumentMemento" where
  "new_DocumentMemento now st = \<lparr>timestamp = now, state = st\<rparr>"

definition memento_getState :: "DocumentMemento \<Rightarrow> DocumentState" where
  "memento_getState m = state m"

definition getTimestamp :: "DocumentMemento \<Rightarrow> nat" where
  "getTimestamp m = timestamp m"

subsection \<open>The originator\<close>

text \<open>The class \<open>Document\<close> has four private fields, named as those of \<open>DocumentState\<close>.\<close>

record Document =
  content :: string
  fontSize :: real
  lineSpacing :: real
  fontFamily :: string

definition new_Document :: Document where
  "new_Document =
     \<lparr>Document.content = '''', Document.fontSize = 12,
      Document.lineSpacing = 3 / 2, Document.fontFamily = ''Arial''\<rparr>"

definition setText :: "string \<Rightarrow> Document \<Rightarrow> Document" where
  "setText c d = d\<lparr>Document.content := c\<rparr>"

definition getText :: "Document \<Rightarrow> string" where
  "getText d = Document.content d"

definition setFontSize :: "real \<Rightarrow> Document \<Rightarrow> Document" where
  "setFontSize sz d = d\<lparr>Document.fontSize := sz\<rparr>"

definition getFontSize :: "Document \<Rightarrow> real" where
  "getFontSize d = Document.fontSize d"

definition setLineSpacing :: "real \<Rightarrow> Document \<Rightarrow> Document" where
  "setLineSpacing spacing d = d\<lparr>Document.lineSpacing := spacing\<rparr>"

definition getLineSpacing :: "Document \<Rightarrow> real" where
  "getLineSpacing d = Document.lineSpacing d"

definition setFontFamily :: "string \<Rightarrow> Document \<Rightarrow> Document" where
  "setFontFamily family d = d\<lparr>Document.fontFamily := family\<rparr>"

definition getFontFamily :: "Document \<Rightarrow> string" where
  "getFontFamily d = Document.fontFamily d"

definition createMemento :: "nat \<Rightarrow> Document \<Rightarrow> DocumentMemento" where
  "createMemento now d =
     new_DocumentMemento now
       \<lparr>DocumentState.content = Document.content d,
        DocumentState.fontSize = Document.fontSize d,
        DocumentState.lineSpacing = Document.lineSpacing d,
        DocumentState.fontFamily = Document.fontFamily d\<rparr>"

definition restoreFromMemento :: "DocumentMemento \<Rightarrow> Document \<Rightarrow> Document" where
  "restoreFromMemento memento d =
     (let st = memento_getState memento in
      d\<lparr>Document.content := DocumentState.content st,
        Document.fontSize := DocumentState.fontSize st,
        Document.lineSpacing := DocumentState.lineSpacing st,
        Document.fontFamily := DocumentState.fontFamily st\<rparr>)"

definition getState :: "Document \<Rightarrow> DocumentState" where
  "getState d =
     \<lparr>DocumentState.content = Document.content d,
      DocumentState.fontSize = Document.fontSize d,
      DocumentState.lineSpacing = Document.lineSpacing d,
      DocumentState.fontFamily = Document.fontFamily d\<rparr>"

subsection \<open>The checkpoint map\<close>

text \<open>
  A JavaScript \<open>Map\<close> keeps its keys in insertion order: \<open>set\<close> on a stored key replaces
  the value in place, on a new key it appends; \<open>get\<close> gives \<open>undefined\<close> (here \<open>None\<close>)
  for a missing key; \<open>delete\<close> tells whether the key was there.
\<close>

type_synonym ('k, 'v) js_map = "('k \<times> 'v) list"

fun Map_get :: "('k, 'v) js_map \<Rightarrow> 'k \<Rightarrow> 'v option" where
  "Map_get [] k = None"
| "Map_get ((k', v) # ps) k = (if k' = k then Some v else Map_get ps k)"

fun Map_set :: "'k \<Rightarrow> 'v \<Rightarrow> ('k, 'v) js_map \<Rightarrow> ('k, 'v) js_map" where
  "Map_set k v [] = [(k, v)]"
| "Map_set k v ((k', v') # ps) = (if k' = k then (k, v) # ps else (k', v') # Map_set k v ps)"

fun Map_delete :: "'k \<Rightarrow> ('k, 'v) js_map \<Rightarrow> bool \<times> ('k, 'v) js_map" where
  "Map_delete k [] = (False, [])"
| "Map_delete k ((k', v') # ps) =
     (if k' = k then (True, ps)
      else (fst (Map_delete k ps), (k', v') # snd (Map_delete k ps)))"

definition Map_keys :: "('k, 'v) js_map \<Rightarrow> 'k list" where
  "Map_keys m = map fst m"

subsection \<open>The caretaker\<close>

text \<open>
  The two stacks are arrays with the most recent entry last: \<open>push\<close> appends, \<open>pop\<close>
  removes and returns the last element. A method that mutates the manager and the
  document returns both; a method that reports success returns the flag first.
\<close>

record UndoRedoManager =
  undoStack :: "DocumentMemento list"
  redoStack :: "DocumentMemento list"
  checkpoints :: "(string, DocumentMemento) js_map"

definition new_UndoRedoManager :: UndoRedoManager where
  "new_UndoRedoManager = \<lparr>undoStack = [], redoStack = [], checkpoints = []\<rparr>"

definition saveState :: "nat \<Rightarrow> Document \<Rightarrow> UndoRedoManager \<Rightarrow> UndoRedoManager" where
  "saveState now document mgr =
     (let mgr1 = mgr\<lparr>redoStack := []\<rparr> in
      mgr1\<lparr>undoStack := undoStack mgr1 @ [createMemento now document]\<rparr>)"

definition undo :: "nat \<Rightarrow> Document \<Rightarrow> UndoRedoManager \<Rightarrow> bool \<times> Document \<times> UndoRedoManager" where
  "undo now document mgr =
     (if length (undoStack mgr) = 0 then (False, document, mgr)
      else
        (let mgr1 = mgr\<lparr>redoStack := redoStack mgr @ [createMemento now document]\<rparr>;
             memento = last (undoStack mgr1);
             mgr2 = mgr1\<lparr>undoStack := butlast (undoStack mgr1)\<rparr>
         in (True, restoreFromMemento memento document, mgr2)))"

definition redo :: "nat \<Rightarrow> Document \<Rightarrow> UndoRedoManager \<Rightarrow> bool \<times> Document \<times> UndoRedoManager" where
  "redo now document mgr =
     (if length (redoStack mgr) = 0 then (False, document, mgr)
      else
        (let mgr1 = mgr\<lparr>undoStack := undoStack mgr @ [createMemento now document]\<rparr>;
             memento = last (redoStack mgr1);
             mgr2 = mgr1\<lparr>redoStack := butlast (redoStack mgr1)\<rparr>
         in (True, restoreFromMemento memento document, mgr2)))"

definition createCheckpoint :: "nat \<Rightarrow> string \<Rightarrow> Document \<Rightarrow> UndoRedoManager \<Rightarrow> UndoRedoManager" where
  "createCheckpoint now name document mgr =
     mgr\<lparr>checkpoints := Map_set name (createMemento now document) (checkpoints mgr)\<rparr>"

definition restoreCheckpoint ::
  "nat \<Rightarrow> string \<Rightarrow> Document \<Rightarrow> UndoRedoManager \<Rightarrow> bool \<times> Document \<times> UndoRedoManager" where
  "restoreCheckpoint now name document mgr =
     (case Map_get (checkpoints mgr) name of
        None \<Rightarrow> (False, document, mgr)
      | Some memento \<Rightarrow>
          (let mgr1 = mgr\<lparr>undoStack := undoStack mgr @ [createMemento now document]\<rparr>;
               mgr2 = mgr1\<lparr>redoStack := []\<rparr>
           in (True, restoreFromMemento memento document, mgr2)))"

definition listCheckpoints :: "UndoRedoManager \<Rightarrow> string list" where
  "listCheckpoints mgr = Map_keys (checkpoints mgr)"

definition deleteCheckpoint :: "string \<Rightarrow> UndoRedoManager \<Rightarrow> bool \<times> UndoRedoManager" where
  "deleteCheckpoint name mgr =
     (fst (Map_delete name (checkpoints mgr)),
      mgr\<lparr>checkpoints := snd (Map_delete name (checkpoints mgr))\<rparr>)"

definition clearHistory :: "UndoRedoManager \<Rightarrow> UndoRedoManager" where
  "clearHistory mgr = mgr\<lparr>undoStack := [], redoStack := [], checkpoints := []\<rparr>"

definition getStats :: "UndoRedoManager \<Rightarrow> nat \<times> nat \<times> nat" where
  "getStats mgr = (length (undoStack mgr), length (redoStack mgr), length (checkpoints mgr))"

section \<open>Strategy: retry policies\<close>

subsection \<open>Numbers the policies compute\<close>

text \<open>
  The delay of a policy is the one number of this program that arithmetic produces, so it
  is a JavaScript \<open>number\<close> with its special values: a finite value, either infinity, or
  \<open>NaN\<close>. The finite values are the binary64 numbers \<open>m * 2^e\<close> with \<open>|m| < 2^53\<close> and
  \<open>-1074 \<le> e \<le> 971\<close>; \<open>double_value m j\<close> is the one with \<open>e = j - 1074\<close>. The sign of
  a zero is not kept.
\<close>

datatype js_number = Finite real | PosInfinity | NegInfinity | NaN

definition MAX_VALUE :: real where
  "MAX_VALUE = (2 ^ 53 - 1) * 2 ^ 971"

definition ulp_at :: "nat \<Rightarrow> real" where
  "ulp_at j = 2 ^ j / 2 ^ 1074"

definition double_value :: "int \<Rightarrow> nat \<Rightarrow> real" where
  "double_value m j = of_int m * ulp_at j"

text \<open>
  Rounding to nearest, ties to even. \<open>grid_index x 0\<close> finds the spacing of the binary64
  numbers around \<open>x\<close>: the least \<open>j\<close> with \<open>|x| < 2^53 * ulp_at j\<close>, and \<open>2045\<close> (spacing
  \<open>2^971\<close>) at the top of the range. A magnitude of \<open>2^1024 - 2^970\<close> or more, half a
  spacing above \<open>MAX_VALUE\<close>, rounds to an infinity.
\<close>

function grid_index :: "real \<Rightarrow> nat \<Rightarrow> nat" where
  "grid_index x j = (if 2045 \<le> j \<or> \<bar>x\<bar> < 2 ^ 53 * ulp_at j then j else grid_index x (j + 1))"
  by pat_completeness auto
termination
  by (relation "measure (\<lambda>(x, j). 2045 - j)") auto

definition round_half_even :: "real \<Rightarrow> int" where
  "round_half_even x =
     (let f = \<lfloor>x\<rfloor>; d = x - of_int f in
      if d < 1 / 2 then f else if 1 / 2 < d then f + 1 else if even f then f else f + 1)"

definition round53 :: "real \<Rightarrow> real" where
  "round53 x = (let u = ulp_at (grid_index x 0) in of_int (round_half_even (x / u)) * u)"

definition to_double :: "real \<Rightarrow> js_number" where
  "to_double x =
     (if 2 ^ 1024 - 2 ^ 970 \<le> \<bar>x\<bar> then (if 0 < x then PosInfinity else NegInfinity)
      else Finite (round53 x))"

text \<open>The operator \<open>*\<close> on numbers.\<close>

fun js_times :: "js_number \<Rightarrow> js_number \<Rightarrow> js_number" where
  "js_times NaN _ = NaN"
| "js_times _ NaN = NaN"
| "js_times (Finite x) (Finite y) = to_double (x * y)"
| "js_times (Finite x) PosInfinity =
     (if x = 0 then NaN else if 0 < x then PosInfinity else NegInfinity)"
| "js_times (Finite x) NegInfinity =
     (if x = 0 then NaN else if 0 < x then NegInfinity else PosInfinity)"
| "js_times PosInfinity (Finite y) =
     (if y = 0 then NaN else if 0 < y then PosInfinity else NegInfinity)"
| "js_times NegInfinity (Finite y) =
     (if y = 0 then NaN else if 0 < y then NegInfinity else PosInfinity)"
| "js_times PosInfinity PosInfinity = PosInfinity"
| "js_times PosInfinity NegInfinity = NegInfinity"
| "js_times NegInfinity PosInfinity = NegInfinity"
| "js_times NegInfinity NegInfinity = PosInfinity"

text \<open>
  \<open>Math.pow(2, n)\<close> at a counter \<open>n\<close>: the power of two itself while it is a binary64
  number, that is up to \<open>2^1023\<close>, and \<open>Infinity\<close> from \<open>n = 1024\<close> on.
\<close>

definition Math_pow2 :: "nat \<Rightarrow> js_number" where
  "Math_pow2 n = (if n \<le> 1023 then Finite (2 ^ n) else PosInfinity)"

subsection \<open>The three policies and the client\<close>

text \<open>
  The interface \<open>RetryStrategy\<close> has three implementing classes; each is a constructor
  carrying the fields of its class (\<open>maxRetries\<close> and \<open>delayMs\<close>, \<open>maxRetries\<close> and
  \<open>baseDelay\<close>), with no defaults filled in. The attempt counter of the client starts at 0 and
  grows by one, so it is a \<open>nat\<close>; \<open>maxRetries\<close> is only compared with it and is a \<open>real\<close>;
  the two delay fields are numbers as above.
\<close>

datatype RetryStrategy =
  FailFastStrategy
| FixedRetryStrategy real js_number
| ExponentialBackoffStrategy real js_number

fun shouldRetry :: "RetryStrategy \<Rightarrow> 'e \<Rightarrow> nat \<Rightarrow> bool" where
  "shouldRetry FailFastStrategy _ _ = False"
| "shouldRetry (FixedRetryStrategy maxRetries delayMs) _ attempt = (real attempt < maxRetries)"
| "shouldRetry (ExponentialBackoffStrategy maxRetries baseDelay) _ attempt =
     (real attempt < maxRetries)"

fun getDelay :: "RetryStrategy \<Rightarrow> nat \<Rightarrow> js_number" where
  "getDelay FailFastStrategy _ = Finite 0"
| "getDelay (FixedRetryStrategy maxRetries delayMs) _ = delayMs"
| "getDelay (ExponentialBackoffStrategy maxRetries baseDelay) attempt =
     js_times baseDelay (Math_pow2 attempt)"

text \<open>
  \<open>ApiClient.request\<close>. The operation \<open>fn\<close> takes no argument and may settle differently
  at each call: \<open>fn k\<close> is how its call number \<open>k\<close> (from 0) settles, \<open>Inl\<close> a rejection
  and \<open>Inr\<close> a value. The loop calls it once per round, so the call number is the attempt
  counter. The trace records, in order, each call of \<open>fn\<close> and each timer the loop waits for.
\<close>

datatype event = Attempt nat | Wait js_number

text \<open>
  The number of further rounds a policy can still grant at an attempt counter; it bounds
  the loop of the client.
\<close>

fun retries_left :: "RetryStrategy \<Rightarrow> nat \<Rightarrow> nat" where
  "retries_left FailFastStrategy attempt = 0"
| "retries_left (FixedRetryStrategy maxRetries delayMs) attempt = nat \<lceil>maxRetries\<rceil> - attempt"
| "retries_left (ExponentialBackoffStrategy maxRetries baseDelay) attempt =
     nat \<lceil>maxRetries\<rceil> - attempt"

function request_loop ::
  "RetryStrategy \<Rightarrow> (nat \<Rightarrow> 'e + 'a) \<Rightarrow> nat \<Rightarrow> event list \<Rightarrow> ('e + 'a) \<times> event list" where
  "request_loop retryStrategy fn attempt trace =
     (case fn attempt of
        Inr v \<Rightarrow> (Inr v, trace @ [Attempt attempt])
      | Inl error \<Rightarrow>
          (if \<not> shouldRetry retryStrategy error attempt
           then (Inl error, trace @ [Attempt attempt])
           else request_loop retryStrategy fn (attempt + 1)
                  (trace @ [Attempt attempt, Wait (getDelay retryStrategy attempt)])))"
  by pat_completeness auto
termination
proof (relation "measure (\<lambda>(rs, fn, attempt, trace). retries_left rs attempt)", goal_cases)
  case 1
  show ?case by simp
next
  case (2 retryStrategy fn attempt trace error)
  then have "retries_left retryStrategy (attempt + 1) < retries_left retryStrategy attempt"
    by (cases retryStrategy) (simp_all, linarith+)
  then show ?case by simp
qed

definition request :: "RetryStrategy \<Rightarrow> (nat \<Rightarrow> 'e + 'a) \<Rightarrow> ('e + 'a) \<times> event list" where
  "request retryStrategy fn = request_loop retryStrategy fn 0 []"

definition attempts :: "event list \<Rightarrow> nat list" where
  "attempts trace = concat (map (\<lambda>ev. case ev of Attempt k \<Rightarrow> [k] | Wait d \<Rightarrow> []) trace)"

subsection \<open>The cancellable client\<close>

text \<open>
  \<open>fetchWithRetry\<close>. What the loop throws is a \<open>DOMException\<close> (message and name), the
  \<open>Error\<close> it builds for a response that is not ok, or whatever \<open>fetch\<close> or
  \<open>response.json()\<close> rejects with.
\<close>

datatype js_error = DOMException string string | Error string | Rejection string

definition AbortError :: js_error where
  "AbortError = DOMException ''Aborted'' ''AbortError''"

text \<open>
  How \<open>fetch\<close> and the response settle: \<open>fetch\<close> rejects, or it gives a response with
  its \<open>ok\<close> flag and with how \<open>response.json()\<close> settles.
\<close>

datatype 'a fetch_outcome = Rejects js_error | Responds bool "js_error + 'a"

text \<open>
  The runtime is an input, round by round (rounds are numbered by the attempt counter):
  what \<open>signal.aborted\<close> reads at the top of the round, how \<open>fetch\<close> of the url settles
  in the round, what \<open>signal.aborted\<close> reads in the \<open>catch\<close>, and whether the
  \<open>abort\<close> listener fires before the timer of the round's wait does.
\<close>

record 'a runtime =
  aborted_at_check :: "nat \<Rightarrow> bool"
  fetch :: "string \<Rightarrow> nat \<Rightarrow> 'a fetch_outcome"
  aborted_in_catch :: "nat \<Rightarrow> bool"
  abort_during_wait :: "nat \<Rightarrow> bool"

text \<open>The \<open>try\<close> block of a round: \<open>Inr\<close> the value returned, \<open>Inl\<close> the error thrown.\<close>

fun try_block :: "'a fetch_outcome \<Rightarrow> js_error + 'a" where
  "try_block (Rejects error) = Inl error"
| "try_block (Responds ok body) =
     (if \<not> ok then Inl (Error ''Network response was not ok'') else body)"

function execute_loop ::
  "string \<Rightarrow> RetryStrategy \<Rightarrow> 'a runtime \<Rightarrow> nat \<Rightarrow> event list \<Rightarrow> (js_error + 'a) \<times> event list" where
  "execute_loop url strategy rt attempt trace =
     (if aborted_at_check rt attempt then (Inl (DOMException ''Aborted'' ''AbortError''), trace)
      else
        (case try_block (fetch rt url attempt) of
           Inr v \<Rightarrow> (Inr v, trace @ [Attempt attempt])
         | Inl error \<Rightarrow>
             (if aborted_in_catch rt attempt then (Inl error, trace @ [Attempt attempt])
              else if \<not> shouldRetry strategy error attempt
              then (Inl error, trace @ [Attempt attempt])
              else if abort_during_wait rt attempt
              then (Inl (DOMException ''Aborted'' ''AbortError''),
                    trace @ [Attempt attempt, Wait (getDelay strategy attempt)])
              else execute_loop url strategy rt (attempt + 1)
                     (trace @ [Attempt attempt, Wait (getDelay strategy attempt)]))))"
  by pat_completeness auto
termination
proof (relation "measure (\<lambda>(url, rs, rt, attempt, trace). retries_left rs attempt)", goal_cases)
  case 1
  show ?case by simp
next
  case (2 url strategy rt attempt trace error)
  then have "retries_left strategy (attempt + 1) < retries_left strategy attempt"
    by (cases strategy) (simp_all, linarith+)
  then show ?case by simp
qed

definition fetchWithRetry ::
  "string \<Rightarrow> RetryStrategy \<Rightarrow> 'a runtime \<Rightarrow> (js_error + 'a) \<times> event list" where
  "fetchWithRetry url strategy rt = execute_loop url strategy rt 0 []"

section \<open>Call sequences\<close>

text \<open>
  A run of edits, each followed by \<open>saveState\<close>, as the demonstration makes them: an entry
  is the clock reading of the save and the text set just before it.
\<close>

fun save_all :: "(nat \<times> string) list \<Rightarrow> Document \<Rightarrow> UndoRedoManager \<Rightarrow> Document \<times> UndoRedoManager" where
  "save_all [] document mgr = (document, mgr)"
| "save_all ((now, c) # es) document mgr =
     (let document1 = setText c document in
      save_all es document1 (saveState now document1 mgr))"

text \<open>A run of \<open>undo\<close> calls, one per clock reading; the flags are dropped, as the demonstration drops them.\<close>

fun undo_all :: "nat list \<Rightarrow> Document \<Rightarrow> UndoRedoManager \<Rightarrow> Document \<times> UndoRedoManager" where
  "undo_all [] document mgr = (document, mgr)"
| "undo_all (now # ns) document mgr =
     (case undo now document mgr of (ok, document1, mgr1) \<Rightarrow> undo_all ns document1 mgr1)"

text \<open>Scenario 5 of the demonstration with the texts A, B and C, saved at clock readings 1, 2 and 3.\<close>

definition doc_A :: Document where
  "doc_A = setText ''A'' new_Document"

definition doc_B :: Document where
  "doc_B = setText ''B'' doc_A"

definition doc_C :: Document where
  "doc_C = setText ''C'' doc_B"

definition saved_ABC :: UndoRedoManager where
  "saved_ABC = saveState 3 doc_C (saveState 2 doc_B (saveState 1 doc_A new_UndoRedoManager))"

definition undone_once :: "bool \<times> Document \<times> UndoRedoManager" where
  "undone_once = undo 4 doc_C saved_ABC"

text \<open>Scenario 2 of the demonstration: a checkpoint \<open>v1\<close> taken of the text \<open>Version 1\<close>.\<close>

definition doc_v1 :: Document where
  "doc_v1 = setText ''Version 1'' new_Document"

definition checkpoint_demo :: UndoRedoManager where
  "checkpoint_demo = createCheckpoint 1 ''v1'' doc_v1 new_UndoRedoManager"

text \<open>An operation that is rejected with the same error at every call.\<close>

definition failing_operation :: "nat \<Rightarrow> string + unit" where
  "failing_operation k = Inl ''Network response was not ok''"

definition redone_once :: "bool \<times> Document \<times> UndoRedoManager" where
  "redone_once = redo 5 (fst (snd undone_once)) (snd (snd undone_once))"

text \<open>
  Runs of the cancellable client, with a server that always answers with a response that
  is not ok, and the signal set once and for good: before round \<open>n\<close> starts; while
  attempt \<open>n\<close> is under way, the attempt failing on its own; during the wait of round \<open>n\<close>.
\<close>

definition never_ok :: "string \<Rightarrow> nat \<Rightarrow> unit fetch_outcome" where
  "never_ok url k = Responds False (Inr ())"

definition abort_before_round :: "nat \<Rightarrow> unit runtime" where
  "abort_before_round n =
     \<lparr>aborted_at_check = (\<lambda>k. n \<le> k), fetch = never_ok,
      aborted_in_catch = (\<lambda>k. n \<le> k), abort_during_wait = (\<lambda>k. False)\<rparr>"

definition abort_during_attempt :: "nat \<Rightarrow> unit runtime" where
  "abort_during_attempt n =
     \<lparr>aborted_at_check = (\<lambda>k. n < k), fetch = never_ok,
      aborted_in_catch = (\<lambda>k. n \<le> k), abort_during_wait = (\<lambda>k. False)\<rparr>"

definition abort_during_wait_of :: "nat \<Rightarrow> unit runtime" where
  "abort_during_wait_of n =
     \<lparr>aborted_at_check = (\<lambda>k. n < k), fetch = never_ok,
      aborted_in_catch = (\<lambda>k. n < k), abort_during_wait = (\<lambda>k. k = n)\<rparr>"

text \<open>The policy of the payments hook: three retries, a second apart.\<close>

definition payments_strategy :: RetryStrategy where
  "payments_strategy = FixedRetryStrategy 3 (Finite 1000)"

section \<open>Properties of the retry policies\<close>

subsection \<open>Binary64 numbers round to themselves\<close>

lemma ulp_at_pos: "0 < ulp_at j"
  by (simp add: ulp_at_def)

lemma ulp_at_add: "ulp_at (i + k) = 2 ^ k * ulp_at i"
  by (simp add: ulp_at_def power_add)

lemma ulp_at_mono: "i \<le> j \<Longrightarrow> ulp_at i \<le> ulp_at j"
  by (simp add: ulp_at_def divide_right_mono)

lemma ulp_at_2045: "ulp_at 2045 = 2 ^ 971"
proof -
  have "(2::real) ^ 2045 = 2 ^ 971 * 2 ^ 1074"
    by (simp add: power_add [symmetric])
  then show ?thesis by (simp add: ulp_at_def)
qed

lemma double_value_scale: "double_value m j * 2 ^ a = double_value m (j + a)"
  by (simp add: double_value_def ulp_at_add)

lemma double_value_minus: "double_value (- m) j = - double_value m j"
  by (simp add: double_value_def)

lemma MAX_VALUE_below_overflow: "MAX_VALUE < 2 ^ 1024 - 2 ^ 970"
  by (simp add: MAX_VALUE_def)

lemma grid_index_le: "\<bar>x\<bar> < 2 ^ 53 * ulp_at i \<Longrightarrow> j \<le> i \<Longrightarrow> grid_index x j \<le> i"
proof (induction x j rule: grid_index.induct)
  case (1 x j)
  show ?case
  proof (cases "2045 \<le> j \<or> \<bar>x\<bar> < 2 ^ 53 * ulp_at j")
    case True
    then have "grid_index x j = j" by simp
    with "1.prems" show ?thesis by simp
  next
    case False
    with "1.prems" have "j \<noteq> i" by auto
    with "1.prems" have "j + 1 \<le> i" by simp
    with "1.IH" False "1.prems" have "grid_index x (j + 1) \<le> i" by simp
    moreover from False have "grid_index x j = grid_index x (j + 1)" by simp
    ultimately show ?thesis by simp
  qed
qed

lemma round_half_even_int: "round_half_even (of_int n) = n"
  by (simp add: round_half_even_def)

lemma round53_exact:
  assumes "\<bar>m\<bar> < 2 ^ 53"
  shows "round53 (double_value m i) = double_value m i"
proof -
  define x where "x = double_value m i"
  define g where "g = grid_index x 0"
  have xm: "x = real_of_int m * ulp_at i"
    by (simp add: x_def double_value_def)
  have "\<bar>real_of_int m\<bar> < 2 ^ 53"
  proof -
    from assms have "real_of_int \<bar>m\<bar> < real_of_int (2 ^ 53)"
      by (simp only: of_int_less_iff)
    then show ?thesis by simp
  qed
  then have "\<bar>x\<bar> < 2 ^ 53 * ulp_at i"
    using ulp_at_pos [of i] by (simp add: xm abs_mult)
  then have "g \<le> i"
    unfolding g_def by (rule grid_index_le) simp
  then have u: "ulp_at i = 2 ^ (i - g) * ulp_at g"
    using ulp_at_add [of g "i - g"] by simp
  have "x / ulp_at g = of_int (m * 2 ^ (i - g))"
    using ulp_at_pos [of g] by (simp add: xm u)
  then have r: "round_half_even (x / ulp_at g) = m * 2 ^ (i - g)"
    by (simp only: round_half_even_int)
  have "round53 x = of_int (round_half_even (x / ulp_at g)) * ulp_at g"
    by (simp add: round53_def Let_def g_def)
  also have "\<dots> = real_of_int (m * 2 ^ (i - g)) * ulp_at g"
    by (simp only: r)
  also have "\<dots> = real_of_int m * ulp_at i"
    by (simp add: u)
  finally show ?thesis by (simp add: x_def double_value_def)
qed

text \<open>A binary64 mantissa scaled beyond \<open>MAX_VALUE\<close> is at least \<open>2^1024\<close>.\<close>

lemma double_value_overflow:
  assumes m: "\<bar>m\<bar> < 2 ^ 53" and big: "MAX_VALUE < double_value m i"
  shows "2 ^ 1024 \<le> double_value m i"
proof -
  have max_pos: "0 < MAX_VALUE" by (simp add: MAX_VALUE_def)
  have mpos: "0 < m"
  proof (rule ccontr)
    assume "\<not> 0 < m"
    then have "real_of_int m \<le> 0" by simp
    then have "double_value m i \<le> 0"
      using ulp_at_pos [of i] by (simp add: double_value_def mult_le_0_iff)
    with big max_pos show False by simp
  qed
  from m have mle: "m \<le> 2 ^ 53 - 1" by simp
  then have mle': "real_of_int m \<le> 2 ^ 53 - 1"
  proof -
    from mle have "real_of_int m \<le> real_of_int (2 ^ 53 - 1)"
      by (simp only: of_int_le_iff)
    then show ?thesis by simp
  qed
  have i: "2046 \<le> i"
  proof (rule ccontr)
    assume "\<not> 2046 \<le> i"
    then have "i \<le> 2045" by simp
    then have "ulp_at i \<le> 2 ^ 971"
      using ulp_at_mono [of i 2045] by (simp add: ulp_at_2045)
    with mle' mpos ulp_at_pos [of i] have "real_of_int m * ulp_at i \<le> (2 ^ 53 - 1) * 2 ^ 971"
      by (intro mult_mono) simp_all
    with big show False by (simp add: double_value_def MAX_VALUE_def)
  qed
  define n where "n = m * 2 ^ (i - 2046)"
  have ui: "ulp_at i = 2 ^ (i - 2046) * (2 * 2 ^ 971)"
    using ulp_at_add [of 2045 "i - 2045"] i ulp_at_add [of 2045 1] ulp_at_add [of 2046 "i - 2046"]
    by (simp add: ulp_at_2045)
  have x: "double_value m i = real_of_int n * (2 * 2 ^ 971)"
    by (simp add: double_value_def n_def ui)
  with big have "(2 ^ 53 - 1) * 2 ^ 971 < real_of_int n * 2 * (2::real) ^ 971"
    by (simp add: MAX_VALUE_def)
  then have "(2 ^ 53 - 1) < real_of_int n * 2"
    by simp
  then have "real_of_int (2 ^ 53 - 1) < real_of_int (n * 2)"
    by simp
  then have "2 ^ 53 - 1 < n * 2"
    by (simp only: of_int_less_iff)
  then have "2 ^ 52 \<le> n" by simp
  then have "real_of_int (2 ^ 52) \<le> real_of_int n"
    by (simp only: of_int_le_iff)
  then have "2 ^ 52 * (2 * 2 ^ 971) \<le> real_of_int n * (2 * (2::real) ^ 971)"
    by (intro mult_right_mono) simp_all
  moreover have "(2::real) ^ 52 * (2 * 2 ^ 971) = 2 ^ 1024"
    by (simp add: power_add [symmetric] flip: power_Suc)
  ultimately show ?thesis by (simp add: x)
qed

lemma to_double_exact:
  assumes "\<bar>m\<bar> < 2 ^ 53" and "\<bar>double_value m i\<bar> \<le> MAX_VALUE"
  shows "to_double (double_value m i) = Finite (double_value m i)"
proof -
  from assms(2) MAX_VALUE_below_overflow
  have "\<not> 2 ^ 1024 - 2 ^ 970 \<le> \<bar>double_value m i\<bar>" by linarith
  with round53_exact [OF assms(1)] show ?thesis
    by (simp only: to_double_def if_False)
qed

lemma to_double_overflow:
  assumes "\<bar>m\<bar> < 2 ^ 53" and "MAX_VALUE < double_value m i"
  shows "to_double (double_value m i) = PosInfinity"
proof -
  from double_value_overflow [OF assms] have big: "2 ^ 1024 \<le> double_value m i" .
  have "(2::real) ^ 1024 - 2 ^ 970 \<le> 2 ^ 1024" by simp
  with big have "2 ^ 1024 - 2 ^ 970 \<le> \<bar>double_value m i\<bar>" by linarith
  moreover from big have "0 < double_value m i"
    by (rule less_le_trans [rotated]) simp
  ultimately show ?thesis
    by (simp only: to_double_def if_True)
qed

lemma to_double_underflow:
  assumes "\<bar>m\<bar> < 2 ^ 53" and "double_value m i < - MAX_VALUE"
  shows "to_double (double_value m i) = NegInfinity"
proof -
  from assms have "\<bar>- m\<bar> < 2 ^ 53" and "MAX_VALUE < double_value (- m) i"
    by (simp_all add: double_value_minus)
  from double_value_overflow [OF this] have big: "2 ^ 1024 \<le> - double_value m i"
    by (simp add: double_value_minus)
  have "(2::real) ^ 1024 - 2 ^ 970 \<le> 2 ^ 1024" by simp
  with big have "2 ^ 1024 - 2 ^ 970 \<le> \<bar>double_value m i\<bar>" by linarith
  moreover have "(0::real) < 2 ^ 1024" by simp
  with big have "\<not> 0 < double_value m i" by linarith
  ultimately show ?thesis
    by (simp only: to_double_def if_True if_False)
qed

subsection \<open>The delays\<close>

text \<open>
  C3, as the code has it. The exponential policy's delay for a binary64 base and an
  attempt index \<open>a\<close> is \<open>base * 2^a\<close> exactly as long as \<open>a \<le> 1023\<close> and that product
  is within the finite range, of magnitude at most \<open>MAX_VALUE\<close>; a product beyond the
  range gives \<open>Infinity\<close> or \<open>-Infinity\<close>; from attempt 1024 on the delay is an infinity
  of the sign of the base, and \<open>NaN\<close> for the base 0. The fixed policy's delay is its
  constant whatever the attempt index, and the never-retry policy refuses to retry for
  every error and attempt index.
\<close>

theorem retry_policy_delays:
  "(\<bar>m\<bar> < 2 ^ 53 \<and> a \<le> 1023 \<and> \<bar>double_value m j * 2 ^ a\<bar> \<le> MAX_VALUE \<longrightarrow>
      getDelay (ExponentialBackoffStrategy mr (Finite (double_value m j))) a =
        Finite (double_value m j * 2 ^ a)) \<and>
   (\<bar>m\<bar> < 2 ^ 53 \<and> a \<le> 1023 \<and> MAX_VALUE < double_value m j * 2 ^ a \<longrightarrow>
      getDelay (ExponentialBackoffStrategy mr (Finite (double_value m j))) a = PosInfinity) \<and>
   (\<bar>m\<bar> < 2 ^ 53 \<and> a \<le> 1023 \<and> double_value m j * 2 ^ a < - MAX_VALUE \<longrightarrow>
      getDelay (ExponentialBackoffStrategy mr (Finite (double_value m j))) a = NegInfinity) \<and>
   (1024 \<le> a \<longrightarrow>
      getDelay (ExponentialBackoffStrategy mr (Finite base)) a =
        (if base = 0 then NaN else if 0 < base then PosInfinity else NegInfinity)) \<and>
   getDelay (FixedRetryStrategy m' d) a = d \<and>
   getDelay (FixedRetryStrategy m' d) a = getDelay (FixedRetryStrategy m' d) a' \<and>
   \<not> shouldRetry FailFastStrategy e a"
proof (intro conjI impI)
  assume "\<bar>m\<bar> < 2 ^ 53 \<and> a \<le> 1023 \<and> \<bar>double_value m j * 2 ^ a\<bar> \<le> MAX_VALUE"
  then show "getDelay (ExponentialBackoffStrategy mr (Finite (double_value m j))) a =
      Finite (double_value m j * 2 ^ a)"
    using to_double_exact [of m "j + a"]
    by (simp add: Math_pow2_def double_value_scale)
next
  assume "\<bar>m\<bar> < 2 ^ 53 \<and> a \<le> 1023 \<and> MAX_VALUE < double_value m j * 2 ^ a"
  then show "getDelay (ExponentialBackoffStrategy mr (Finite (double_value m j))) a = PosInfinity"
    using to_double_overflow [of m "j + a"]
    by (simp add: Math_pow2_def double_value_scale)
next
  assume "\<bar>m\<bar> < 2 ^ 53 \<and> a \<le> 1023 \<and> double_value m j * 2 ^ a < - MAX_VALUE"
  then show "getDelay (ExponentialBackoffStrategy mr (Finite (double_value m j))) a = NegInfinity"
    using to_double_underflow [of m "j + a"]
    by (simp add: Math_pow2_def double_value_scale)
next
  assume "1024 \<le> a"
  then show "getDelay (ExponentialBackoffStrategy mr (Finite base)) a =
      (if base = 0 then NaN else if 0 < base then PosInfinity else NegInfinity)"
    by (simp add: Math_pow2_def)
qed simp_all

theorem retry_policy_delays_witness:
  "\<bar>300::int\<bar> < 2 ^ 53 \<and> (3::nat) \<le> 1023 \<and> \<bar>double_value 300 1074 * 2 ^ 3\<bar> \<le> MAX_VALUE \<and>
   double_value 300 1074 = 300 \<and>
   getDelay (ExponentialBackoffStrategy 5 (Finite (double_value 300 1074))) 3 = Finite 2400 \<and>
   (1016::nat) \<le> 1023 \<and> MAX_VALUE < double_value 300 1074 * 2 ^ 1016 \<and>
   getDelay (ExponentialBackoffStrategy 5 (Finite (double_value 300 1074))) 1016 = PosInfinity \<and>
   \<bar>- 300::int\<bar> < 2 ^ 53 \<and> double_value (- 300) 1074 * 2 ^ 1016 < - MAX_VALUE \<and>
   getDelay (ExponentialBackoffStrategy 5 (Finite (double_value (- 300) 1074))) 1016 = NegInfinity \<and>
   (1024::nat) \<le> 1024 \<and>
   getDelay (ExponentialBackoffStrategy 5 (Finite 0)) 1024 = NaN"
proof -
  have v: "double_value 300 1074 = 300" "double_value (- 300) 1074 = - 300"
    by (simp_all add: double_value_def ulp_at_def)
  have h1: "\<bar>300::int\<bar> < 2 ^ 53 \<and> (3::nat) \<le> 1023 \<and> \<bar>double_value 300 1074 * 2 ^ 3\<bar> \<le> MAX_VALUE"
    by (simp add: v MAX_VALUE_def)
  have h2: "\<bar>300::int\<bar> < 2 ^ 53 \<and> (1016::nat) \<le> 1023 \<and>
      MAX_VALUE < double_value 300 1074 * 2 ^ 1016"
    by (simp add: v MAX_VALUE_def)
  have h3: "\<bar>- 300::int\<bar> < 2 ^ 53 \<and> (1016::nat) \<le> 1023 \<and>
      double_value (- 300) 1074 * 2 ^ 1016 < - MAX_VALUE"
    by (simp add: v MAX_VALUE_def)
  have h4: "(1024::nat) \<le> 1024" by simp
  have c1: "getDelay (ExponentialBackoffStrategy 5 (Finite (double_value 300 1074))) 3 =
      Finite (double_value 300 1074 * 2 ^ 3)"
    by (rule mp [OF conjunct1 [OF retry_policy_delays
            [where m = 300 and a = 3 and j = 1074 and mr = 5]] h1])
  have c2: "getDelay (ExponentialBackoffStrategy 5 (Finite (double_value 300 1074))) 1016 =
      PosInfinity"
    by (rule mp [OF conjunct1 [OF conjunct2 [OF retry_policy_delays
            [where m = 300 and a = 1016 and j = 1074 and mr = 5]]] h2])
  have c3: "getDelay (ExponentialBackoffStrategy 5 (Finite (double_value (- 300) 1074))) 1016 =
      NegInfinity"
    by (rule mp [OF conjunct1 [OF conjunct2 [OF conjunct2 [OF retry_policy_delays
            [where m = "- 300" and a = 1016 and j = 1074 and mr = 5]]]] h3])
  have "getDelay (ExponentialBackoffStrategy 5 (Finite 0)) 1024 =
      (if (0::real) = 0 then NaN else if (0::real) < 0 then PosInfinity else NegInfinity)"
    by (rule mp [OF conjunct1 [OF conjunct2 [OF conjunct2 [OF conjunct2 [OF retry_policy_delays
            [where a = 1024 and mr = 5 and base = 0]]]]] h4])
  then have c4: "getDelay (ExponentialBackoffStrategy 5 (Finite 0)) 1024 = NaN"
    by simp
  have c1': "getDelay (ExponentialBackoffStrategy 5 (Finite (double_value 300 1074))) 3 =
      Finite 2400"
    using c1 by (simp only: v) simp
  from h1 h2 h3 h4 v(1) c1' c2 c3 c4 show ?thesis by blast
qed

text \<open>
  C3, as the specification words it (the delay is \<open>base * 2^a\<close> for every attempt index),
  fails: with the default base 300 the delay at attempt 1016 is \<open>Infinity\<close>, not that
  product, and with the base 0 the delay at attempt 1024 is \<open>NaN\<close>, not 0.
\<close>

theorem exponential_delay_overflows:
  "getDelay (ExponentialBackoffStrategy 5 (Finite 300)) 1016 = PosInfinity \<and>
   getDelay (ExponentialBackoffStrategy 5 (Finite 300)) 1016 \<noteq> Finite (300 * 2 ^ 1016) \<and>
   getDelay (ExponentialBackoffStrategy 5 (Finite 0)) 1024 = NaN \<and>
   getDelay (ExponentialBackoffStrategy 5 (Finite 0)) 1024 \<noteq> Finite (0 * 2 ^ 1024)"
  by (simp add: Math_pow2_def to_double_def)

subsection \<open>The client\<close>

text \<open>
  C2, as the code has it: with a fixed policy of \<open>maxRetries = 3\<close> and an operation that
  is rejected at every call, the client calls the operation at attempts 0, 1, 2 and 3
  (the first call and three retries), waits the fixed delay between them, makes no fifth
  call and rejects with the error of the last call, unchanged.
\<close>

theorem fixed_retry_3_runs_four_attempts:
  "request (FixedRetryStrategy 3 d) (\<lambda>k. Inl (err k)) =
     (Inl (err 3), [Attempt 0, Wait d, Attempt 1, Wait d, Attempt 2, Wait d, Attempt 3])"
  by (simp add: request_def numeral_3_eq_3)

text \<open>
  C2, as the specification words it (attempts 0, 1 and 2, and no fourth attempt), fails:
  the policy of the payments hook, three retries a second apart, lets an operation that
  always fails run a fourth time, at attempt 3.
\<close>

theorem fixed_retry_3_fourth_attempt:
  "attempts (snd (request (FixedRetryStrategy 3 (Finite 1000)) failing_operation)) = [0, 1, 2, 3] \<and>
   attempts (snd (request (FixedRetryStrategy 3 (Finite 1000)) failing_operation)) \<noteq> [0, 1, 2]"
  by (simp add: request_def attempts_def failing_operation_def)

subsection \<open>Cancellation\<close>

lemma attempt_in_trace:
  "Attempt k \<in> set (snd (execute_loop url s rt a tr)) \<Longrightarrow>
   Attempt k \<in> set tr \<or>
   (a \<le> k \<and> (\<forall>j. a \<le> j \<and> j \<le> k \<longrightarrow> \<not> aborted_at_check rt j) \<and>
    (\<forall>j. a \<le> j \<and> j < k \<longrightarrow> \<not> aborted_in_catch rt j \<and> \<not> abort_during_wait rt j))"
proof (induction url s rt a tr rule: execute_loop.induct)
  case (1 url strategy rt attempt trace)
  show ?case
  proof (cases "aborted_at_check rt attempt")
    case True
    with "1.prems" show ?thesis by simp
  next
    case check: False
    show ?thesis
    proof (cases "try_block (fetch rt url attempt)")
      case (Inr v)
      with check "1.prems" show ?thesis by auto
    next
      case (Inl error)
      show ?thesis
      proof (cases "aborted_in_catch rt attempt \<or> \<not> shouldRetry strategy error attempt
          \<or> abort_during_wait rt attempt")
        case True
        with check Inl "1.prems" show ?thesis by (auto split: if_splits)
      next
        case False
        with check Inl "1.prems"
        have mem: "Attempt k \<in> set (snd (execute_loop url strategy rt (attempt + 1)
            (trace @ [Attempt attempt, Wait (getDelay strategy attempt)])))"
          by simp
        from "1.IH" [OF check Inl _ _ _ mem] False
        consider "Attempt k \<in> set trace" | "k = attempt"
          | "attempt + 1 \<le> k"
            "\<forall>j. attempt + 1 \<le> j \<and> j \<le> k \<longrightarrow> \<not> aborted_at_check rt j"
            "\<forall>j. attempt + 1 \<le> j \<and> j < k \<longrightarrow> \<not> aborted_in_catch rt j \<and> \<not> abort_during_wait rt j"
          by auto
        then show ?thesis
        proof cases
          case 1
          then show ?thesis by simp
        next
          case 2
          with check show ?thesis by auto
        next
          case 3
          have "\<not> aborted_at_check rt j" if "attempt \<le> j" "j \<le> k" for j
            using that 3(2) check by (cases "j = attempt") auto
          moreover have "\<not> aborted_in_catch rt j \<and> \<not> abort_during_wait rt j"
            if "attempt \<le> j" "j < k" for j
            using that 3(3) False by (cases "j = attempt") auto
          ultimately show ?thesis using 3(1) by auto
        qed
      qed
    qed
  qed
qed

text \<open>
  C8, as the code has it. Whatever the policy and the runtime, an attempt is started
  only while every reading of the signal so far, at the top of each round up to this
  one and in the \<open>catch\<close> and during the wait of each earlier round, found it not set.
  A round whose top check reads the signal set starts no attempt and fails with
  \<open>AbortError\<close>. A round whose \<open>catch\<close> reads it set starts no further attempt and
  rethrows the error it caught, whatever that error is. An abort that fires during the
  wait ends the wait, no further attempt is started, and the client fails with
  \<open>AbortError\<close>.
\<close>

theorem cancellation_stops_attempts:
  "(Attempt k \<in> set (snd (fetchWithRetry url s rt)) \<longrightarrow>
      (\<forall>j\<le>k. \<not> aborted_at_check rt j) \<and>
      (\<forall>j<k. \<not> aborted_in_catch rt j \<and> \<not> abort_during_wait rt j)) \<and>
   (aborted_at_check rt a \<longrightarrow> execute_loop url s rt a tr = (Inl AbortError, tr)) \<and>
   (\<not> aborted_at_check rt a \<and> try_block (fetch rt url a) = Inl error \<and>
    aborted_in_catch rt a \<longrightarrow>
      execute_loop url s rt a tr = (Inl error, tr @ [Attempt a])) \<and>
   (\<not> aborted_at_check rt a \<and> try_block (fetch rt url a) = Inl error \<and>
    \<not> aborted_in_catch rt a \<and> shouldRetry s error a \<and> abort_during_wait rt a \<longrightarrow>
      execute_loop url s rt a tr =
        (Inl AbortError, tr @ [Attempt a, Wait (getDelay s a)]))"
proof (intro conjI impI)
  assume "Attempt k \<in> set (snd (fetchWithRetry url s rt))"
  then have "Attempt k \<in> set (snd (execute_loop url s rt 0 []))"
    by (simp add: fetchWithRetry_def)
  from attempt_in_trace [OF this]
  show "\<forall>j\<le>k. \<not> aborted_at_check rt j"
    and "\<forall>j<k. \<not> aborted_in_catch rt j \<and> \<not> abort_during_wait rt j"
    by simp_all
next
  assume "aborted_at_check rt a"
  then show "execute_loop url s rt a tr = (Inl AbortError, tr)"
    by (simp add: AbortError_def)
next
  assume "\<not> aborted_at_check rt a \<and> try_block (fetch rt url a) = Inl error \<and>
    aborted_in_catch rt a"
  then show "execute_loop url s rt a tr = (Inl error, tr @ [Attempt a])"
    by simp
next
  assume "\<not> aborted_at_check rt a \<and> try_block (fetch rt url a) = Inl error \<and>
    \<not> aborted_in_catch rt a \<and> shouldRetry s error a \<and> abort_during_wait rt a"
  then show "execute_loop url s rt a tr =
      (Inl AbortError, tr @ [Attempt a, Wait (getDelay s a)])"
    by (simp add: AbortError_def)
qed

theorem cancellation_stops_attempts_witness:
  "Attempt 1 \<in> set (snd (fetchWithRetry ''/payments'' payments_strategy (abort_before_round 2))) \<and>
   \<not> aborted_at_check (abort_before_round 2) 0 \<and>
   \<not> aborted_at_check (abort_before_round 2) 1 \<and>
   \<not> aborted_in_catch (abort_before_round 2) 0 \<and>
   \<not> abort_during_wait (abort_before_round 2) 0 \<and>
   aborted_at_check (abort_before_round 2) 2 \<and>
   execute_loop ''/payments'' payments_strategy (abort_before_round 2) 2
       [Attempt 0, Wait (Finite 1000), Attempt 1, Wait (Finite 1000)] =
     (Inl AbortError, [Attempt 0, Wait (Finite 1000), Attempt 1, Wait (Finite 1000)]) \<and>
   aborted_in_catch (abort_during_attempt 0) 0 \<and>
   execute_loop ''/payments'' payments_strategy (abort_during_attempt 0) 0 [] =
     (Inl (Error ''Network response was not ok''), [Attempt 0]) \<and>
   abort_during_wait (abort_during_wait_of 1) 1 \<and>
   execute_loop ''/payments'' payments_strategy (abort_during_wait_of 1) 1
       [Attempt 0, Wait (Finite 1000)] =
     (Inl AbortError, [Attempt 0, Wait (Finite 1000), Attempt 1, Wait (Finite 1000)])"
proof -
  have h1: "Attempt 1 \<in> set (snd (fetchWithRetry ''/payments'' payments_strategy
      (abort_before_round 2)))"
    by (simp add: fetchWithRetry_def payments_strategy_def abort_before_round_def never_ok_def)
  have h2: "aborted_at_check (abort_before_round 2) 2"
    by (simp add: abort_before_round_def)
  have h3: "\<not> aborted_at_check (abort_during_attempt 0) 0 \<and>
      try_block (fetch (abort_during_attempt 0) ''/payments'' 0) =
        Inl (Error ''Network response was not ok'') \<and>
      aborted_in_catch (abort_during_attempt 0) 0"
    by (simp add: abort_during_attempt_def never_ok_def)
  have h4: "\<not> aborted_at_check (abort_during_wait_of 1) 1 \<and>
      try_block (fetch (abort_during_wait_of 1) ''/payments'' 1) =
        Inl (Error ''Network response was not ok'') \<and>
      \<not> aborted_in_catch (abort_during_wait_of 1) 1 \<and>
      shouldRetry payments_strategy (Error ''Network response was not ok'') 1 \<and>
      abort_during_wait (abort_during_wait_of 1) 1"
    by (simp add: abort_during_wait_of_def never_ok_def payments_strategy_def)
  have d: "getDelay payments_strategy n = Finite 1000" for n
    by (simp add: payments_strategy_def)
  from cancellation_stops_attempts [where k = 1 and url = "''/payments''"
      and s = payments_strategy and rt = "abort_before_round 2"] h1
  have c1: "(\<forall>j\<le>1. \<not> aborted_at_check (abort_before_round 2) j) \<and>
      (\<forall>j<1. \<not> aborted_in_catch (abort_before_round 2) j \<and>
        \<not> abort_during_wait (abort_before_round 2) j)"
    by blast
  from cancellation_stops_attempts [where a = 2 and url = "''/payments''"
      and s = payments_strategy and rt = "abort_before_round 2"
      and tr = "[Attempt 0, Wait (Finite 1000), Attempt 1, Wait (Finite 1000)]"] h2
  have c2: "execute_loop ''/payments'' payments_strategy (abort_before_round 2) 2
       [Attempt 0, Wait (Finite 1000), Attempt 1, Wait (Finite 1000)] =
     (Inl AbortError, [Attempt 0, Wait (Finite 1000), Attempt 1, Wait (Finite 1000)])"
    by blast
  from cancellation_stops_attempts [where a = 0 and url = "''/payments''"
      and s = payments_strategy and rt = "abort_during_attempt 0" and tr = "[]"
      and error = "Error ''Network response was not ok''"] h3
  have c3: "execute_loop ''/payments'' payments_strategy (abort_during_attempt 0) 0 [] =
     (Inl (Error ''Network response was not ok''), [Attempt 0])"
    by simp
  from cancellation_stops_attempts [where a = 1 and url = "''/payments''"
      and s = payments_strategy and rt = "abort_during_wait_of 1"
      and tr = "[Attempt 0, Wait (Finite 1000)]"
      and error = "Error ''Network response was not ok''"] h4
  have c4: "execute_loop ''/payments'' payments_strategy (abort_during_wait_of 1) 1
       [Attempt 0, Wait (Finite 1000)] =
     (Inl AbortError, [Attempt 0, Wait (Finite 1000), Attempt 1, Wait (Finite 1000)])"
    by (simp add: d)
  from c1 have c1': "\<not> aborted_at_check (abort_before_round 2) 0 \<and>
      \<not> aborted_at_check (abort_before_round 2) 1 \<and>
      \<not> aborted_in_catch (abort_before_round 2) 0 \<and>
      \<not> abort_during_wait (abort_before_round 2) 0"
    by simp
  from h1 h2 h3 h4 c1' c2 c3 c4 show ?thesis by blast
qed

text \<open>
  C8, as the specification words it (a cancelled client fails with \<open>AbortError\<close>, never
  with the operation's own failure), fails: when the signal is set while the first
  attempt is under way and that attempt ends on its own with a response that is not ok,
  the \<open>catch\<close> reads the signal set and rethrows the error of the attempt, which is not
  \<open>AbortError\<close>; no further attempt is started.
\<close>

theorem cancellation_surfaces_own_error:
  "fetchWithRetry ''/payments'' payments_strategy (abort_during_attempt 0) =
     (Inl (Error ''Network response was not ok''), [Attempt 0]) \<and>
   aborted_in_catch (abort_during_attempt 0) 0 \<and>
   Error ''Network response was not ok'' \<noteq> AbortError"
  by (simp add: fetchWithRetry_def payments_strategy_def abort_during_attempt_def never_ok_def
      AbortError_def)

section \<open>Properties of the history manager\<close>

subsection \<open>Snapshots and the document\<close>

lemma restore_create [simp]: "restoreFromMemento (createMemento now d) d' = d"
  by (simp add: restoreFromMemento_def createMemento_def new_DocumentMemento_def
      memento_getState_def)

lemma restore_restore [simp]:
  "restoreFromMemento m (restoreFromMemento m' d) = restoreFromMemento m d"
  by (simp add: restoreFromMemento_def Let_def)

lemma getState_restore [simp]: "getState (restoreFromMemento m d) = state m"
  by (simp add: restoreFromMemento_def getState_def memento_getState_def Let_def)

lemma state_createMemento [simp]: "state (createMemento now d) = getState d"
  by (simp add: createMemento_def getState_def new_DocumentMemento_def)

lemma setText_setText [simp]: "setText c (setText c' d) = setText c d"
  by (simp add: setText_def)

lemma getText_setText [simp]: "getText (setText c d) = c"
  by (simp add: setText_def getText_def)

lemma undo_nonempty:
  "undoStack m \<noteq> [] \<Longrightarrow>
   undo now d m =
     (True, restoreFromMemento (last (undoStack m)) d,
      m\<lparr>redoStack := redoStack m @ [createMemento now d], undoStack := butlast (undoStack m)\<rparr>)"
  by (simp add: undo_def Let_def)

lemma redo_nonempty:
  "redoStack m \<noteq> [] \<Longrightarrow>
   redo now d m =
     (True, restoreFromMemento (last (redoStack m)) d,
      m\<lparr>undoStack := undoStack m @ [createMemento now d], redoStack := butlast (redoStack m)\<rparr>)"
  by (simp add: redo_def Let_def)

lemma undo_True_iff: "fst (undo now d m) \<longleftrightarrow> undoStack m \<noteq> []"
  by (simp add: undo_def Let_def)

lemma redo_True_iff: "fst (redo now d m) \<longleftrightarrow> redoStack m \<noteq> []"
  by (simp add: redo_def Let_def)

lemma saved_ABC_stacks:
  "undoStack saved_ABC = [createMemento 1 doc_A, createMemento 2 doc_B, createMemento 3 doc_C]"
  "redoStack saved_ABC = []"
  "checkpoints saved_ABC = []"
  by (simp_all add: saved_ABC_def saveState_def new_UndoRedoManager_def Let_def)

lemma undone_once_eq:
  "undone_once =
     (True, doc_C,
      saved_ABC\<lparr>redoStack := [createMemento 4 doc_C],
                undoStack := [createMemento 1 doc_A, createMemento 2 doc_B]\<rparr>)"
  by (simp add: undone_once_def undo_nonempty saved_ABC_stacks)

lemma redone_once_eq:
  "redone_once =
     (True, doc_C,
      saved_ABC\<lparr>redoStack := [],
                undoStack := [createMemento 1 doc_A, createMemento 2 doc_B, createMemento 5 doc_C]\<rparr>)"
  by (simp add: redone_once_def undone_once_eq redo_nonempty)

lemma checkpoint_demo_fields:
  "undoStack checkpoint_demo = []"
  "redoStack checkpoint_demo = []"
  "checkpoints checkpoint_demo = [(''v1'', createMemento 1 doc_v1)]"
  by (simp_all add: checkpoint_demo_def createCheckpoint_def new_UndoRedoManager_def)

subsection \<open>Saves followed by undos\<close>

lemma save_all_eq:
  "save_all es d m =
     (if es = [] then d else setText (snd (last es)) d,
      m\<lparr>undoStack := undoStack m @ map (\<lambda>(now, c). createMemento now (setText c d)) es,
        redoStack := (if es = [] then redoStack m else [])\<rparr>)"
proof (induction es arbitrary: d m)
  case Nil
  show ?case by simp
next
  case (Cons e es)
  obtain now c where e: "e = (now, c)" by (cases e)
  show ?case
    by (simp add: e Cons.IH Let_def saveState_def)
qed

lemma undo_all_doc:
  "ns \<noteq> [] \<Longrightarrow> length ns \<le> length (undoStack m) \<Longrightarrow>
   fst (undo_all ns d m) =
     restoreFromMemento (undoStack m ! (length (undoStack m) - length ns)) d"
proof (induction ns arbitrary: d m)
  case Nil
  then show ?case by simp
next
  case (Cons now ns)
  from Cons.prems have ne: "undoStack m \<noteq> []" by auto
  show ?case
  proof (cases "ns = []")
    case True
    with ne show ?thesis
      by (simp add: undo_nonempty last_conv_nth)
  next
    case False
    from Cons.prems have len: "length ns \<le> length (butlast (undoStack m))" by simp
    have idx: "length (undoStack m) - 1 - length ns < length (undoStack m) - 1"
      using Cons.prems False by (cases ns) auto
    show ?thesis
      using Cons.IH [OF False, of "m\<lparr>redoStack := redoStack m @ [createMemento now d],
          undoStack := butlast (undoStack m)\<rparr>" "restoreFromMemento (last (undoStack m)) d"]
        len idx
      by (simp add: undo_nonempty [OF ne] nth_butlast)
  qed
qed

text \<open>
  What the code does after a run of saves and then \<open>N \<ge> 1\<close> undos, \<open>N\<close> at most the
  number of saves: the document reads the text of the save at position
  \<open>length es - N\<close> counted from 0, that is save number \<open>length es - N + 1\<close> counted
  from 1. The first undo pops the snapshot of the state the document already has.
\<close>

theorem undo_after_saves:
  assumes "ns \<noteq> []" and "length ns \<le> length es"
  shows "getText (fst (undo_all ns (fst (save_all es d m)) (snd (save_all es d m)))) =
           snd (es ! (length es - length ns))"
proof -
  let ?u = "undoStack m @ map (\<lambda>(now, c). createMemento now (setText c d)) es"
  have "fst (undo_all ns (fst (save_all es d m)) (snd (save_all es d m))) =
        restoreFromMemento (?u ! (length ?u - length ns)) (fst (save_all es d m))"
    using assms by (subst undo_all_doc) (simp_all add: save_all_eq)
  moreover have "?u ! (length ?u - length ns) =
      (\<lambda>(now, c). createMemento now (setText c d)) (es ! (length es - length ns))"
    using assms by (cases ns) (auto simp: nth_append)
  ultimately show ?thesis
    by (simp add: case_prod_beta)
qed

theorem undo_after_saves_example:
  "[4] \<noteq> ([]::nat list) \<and> length [4::nat] \<le> length [(1::nat, ''A''), (2, ''B''), (3, ''C'')] \<and>
   getText (fst (undo_all [4]
      (fst (save_all [(1, ''A''), (2, ''B''), (3, ''C'')] new_Document new_UndoRedoManager))
      (snd (save_all [(1, ''A''), (2, ''B''), (3, ''C'')] new_Document new_UndoRedoManager)))) = ''C''"
  using undo_after_saves [of "[4]" "[(1, ''A''), (2, ''B''), (3, ''C'')]" new_Document new_UndoRedoManager]
  by simp


text \<open>
  C1 at the example of the claim: after the texts A, B and C have each been set and
  saved, the first undo succeeds and leaves the document reading C, the second leaves it
  reading B, and the redo after them makes it read C again. The claim, and the comments
  of the demonstration, expect B, A and B.
\<close>

theorem save_ABC_undo_undo_redo:
  "(let (ok1, d1, m1) = undo 4 doc_C saved_ABC;
        (ok2, d2, m2) = undo 5 d1 m1;
        (ok3, d3, m3) = redo 6 d2 m2
    in (ok1, getText d1, ok2, getText d2, ok3, getText d3)) =
   (True, ''C'', True, ''B'', True, ''C'')"
  by (simp add: undo_def redo_def saved_ABC_def saveState_def new_UndoRedoManager_def Let_def
      doc_A_def doc_B_def doc_C_def)

subsection \<open>Failure leaves everything as it was\<close>

text \<open>
  C6: with an empty undo sequence \<open>undo\<close> returns the failure flag and leaves the manager
  and the document as they were; with an empty redo sequence \<open>redo\<close> does the same.
\<close>

theorem undo_redo_empty_fail:
  "(undoStack mgr = [] \<longrightarrow> undo now document mgr = (False, document, mgr)) \<and>
   (redoStack mgr = [] \<longrightarrow> redo now document mgr = (False, document, mgr))"
  by (simp add: undo_def redo_def)

theorem undo_redo_empty_fail_witness:
  "undoStack new_UndoRedoManager = [] \<and>
   undo 1 doc_A new_UndoRedoManager = (False, doc_A, new_UndoRedoManager) \<and>
   redoStack new_UndoRedoManager = [] \<and>
   redo 1 doc_A new_UndoRedoManager = (False, doc_A, new_UndoRedoManager)"
proof -
  have h: "undoStack new_UndoRedoManager = []" "redoStack new_UndoRedoManager = []"
    by (simp_all add: new_UndoRedoManager_def)
  from undo_redo_empty_fail [of new_UndoRedoManager 1 doc_A] h
  show ?thesis by simp
qed

text \<open>
  C5: for a name with no stored checkpoint \<open>restoreCheckpoint\<close> returns failure and
  leaves the undo sequence, the redo sequence, the checkpoint map and the document as
  they were; for a stored name it pushes a snapshot of the current document state onto
  undo, empties redo, gives the document the state of the checkpoint snapshot and
  returns success.
\<close>

theorem restoreCheckpoint_unknown_or_stored:
  "(Map_get (checkpoints mgr) name = None \<longrightarrow>
      restoreCheckpoint now name document mgr = (False, document, mgr)) \<and>
   (Map_get (checkpoints mgr) name = Some memento \<longrightarrow>
      restoreCheckpoint now name document mgr =
        (True, restoreFromMemento memento document,
         mgr\<lparr>undoStack := undoStack mgr @ [createMemento now document], redoStack := []\<rparr>) \<and>
      state (createMemento now document) = getState document \<and>
      getState (restoreFromMemento memento document) = state memento)"
  by (simp add: restoreCheckpoint_def Let_def)

theorem restoreCheckpoint_unknown_or_stored_witness:
  "Map_get (checkpoints checkpoint_demo) ''v2'' = None \<and>
   restoreCheckpoint 2 ''v2'' doc_A checkpoint_demo = (False, doc_A, checkpoint_demo) \<and>
   Map_get (checkpoints checkpoint_demo) ''v1'' = Some (createMemento 1 doc_v1) \<and>
   restoreCheckpoint 2 ''v1'' doc_A checkpoint_demo =
     (True, doc_v1, checkpoint_demo\<lparr>undoStack := [createMemento 2 doc_A], redoStack := []\<rparr>) \<and>
   getState doc_v1 = state (createMemento 1 doc_v1)"
proof -
  have h1: "Map_get (checkpoints checkpoint_demo) ''v2'' = None"
    by (simp add: checkpoint_demo_fields)
  have h2: "Map_get (checkpoints checkpoint_demo) ''v1'' = Some (createMemento 1 doc_v1)"
    by (simp add: checkpoint_demo_fields)
  from restoreCheckpoint_unknown_or_stored [of checkpoint_demo "''v2''" 2 doc_A] h1
    restoreCheckpoint_unknown_or_stored [of checkpoint_demo "''v1''" 2 doc_A "createMemento 1 doc_v1"] h2
  show ?thesis by (simp add: checkpoint_demo_fields)
qed

subsection \<open>The redo sequence\<close>

text \<open>
  C4: \<open>saveState\<close>, and \<open>restoreCheckpoint\<close> when it succeeds, leave the redo sequence
  empty, so that a redo right after either returns failure (and changes nothing).
\<close>

theorem save_or_restore_clears_redo:
  "redoStack (saveState now document mgr) = [] \<and>
   redo now' document' (saveState now document mgr) =
     (False, document', saveState now document mgr) \<and>
   (restoreCheckpoint now name document mgr = (True, document1, mgr1) \<longrightarrow>
      redoStack mgr1 = [] \<and> redo now' document' mgr1 = (False, document', mgr1))"
  by (auto simp: saveState_def redo_def restoreCheckpoint_def Let_def split: option.splits)

theorem save_or_restore_clears_redo_witness:
  "restoreCheckpoint 2 ''v1'' doc_A checkpoint_demo =
     (True, doc_v1, checkpoint_demo\<lparr>undoStack := [createMemento 2 doc_A], redoStack := []\<rparr>) \<and>
   redo 3 doc_v1 (checkpoint_demo\<lparr>undoStack := [createMemento 2 doc_A], redoStack := []\<rparr>) =
     (False, doc_v1, checkpoint_demo\<lparr>undoStack := [createMemento 2 doc_A], redoStack := []\<rparr>) \<and>
   redo 3 doc_A (saveState 2 doc_A checkpoint_demo) =
     (False, doc_A, saveState 2 doc_A checkpoint_demo)"
proof -
  have h: "restoreCheckpoint 2 ''v1'' doc_A checkpoint_demo =
     (True, doc_v1, checkpoint_demo\<lparr>undoStack := [createMemento 2 doc_A], redoStack := []\<rparr>)"
    by (simp add: restoreCheckpoint_def checkpoint_demo_fields Let_def)
  from save_or_restore_clears_redo [of 2 doc_A checkpoint_demo 3 doc_v1 "''v1''" doc_v1
      "checkpoint_demo\<lparr>undoStack := [createMemento 2 doc_A], redoStack := []\<rparr>"]
    save_or_restore_clears_redo [of 2 doc_A checkpoint_demo 3 doc_A]
    h
  show ?thesis by simp
qed

text \<open>
  C7: a successful undo pushes a snapshot of the document's current state onto the redo
  sequence and gives the document the state of the undo entry it pops; a successful redo
  does the same with the two sequences exchanged. Hence a redo right after a successful
  undo succeeds and gives back the document exactly as it was before the undo, with the
  redo sequence as it was and the undo sequence holding the same states as before; and
  an undo right after a successful redo likewise.
\<close>

theorem undo_redo_inverse:
  "(undo now document mgr = (True, document1, mgr1) \<longrightarrow>
      document1 = restoreFromMemento (last (undoStack mgr)) document \<and>
      undoStack mgr1 = butlast (undoStack mgr) \<and>
      redoStack mgr1 = redoStack mgr @ [createMemento now document] \<and>
      state (last (redoStack mgr1)) = getState document \<and>
      redo now' document1 mgr1 =
        (True, document,
         mgr\<lparr>undoStack := butlast (undoStack mgr) @ [createMemento now' document1]\<rparr>) \<and>
      map state (butlast (undoStack mgr) @ [createMemento now' document1]) =
        map state (undoStack mgr)) \<and>
   (redo now document mgr = (True, document1, mgr1) \<longrightarrow>
      document1 = restoreFromMemento (last (redoStack mgr)) document \<and>
      redoStack mgr1 = butlast (redoStack mgr) \<and>
      undoStack mgr1 = undoStack mgr @ [createMemento now document] \<and>
      state (last (undoStack mgr1)) = getState document \<and>
      undo now' document1 mgr1 =
        (True, document,
         mgr\<lparr>redoStack := butlast (redoStack mgr) @ [createMemento now' document1]\<rparr>) \<and>
      map state (butlast (redoStack mgr) @ [createMemento now' document1]) =
        map state (redoStack mgr))"
proof (intro conjI impI)
  assume u: "undo now document mgr = (True, document1, mgr1)"
  then have ne: "undoStack mgr \<noteq> []"
    by (auto simp: undo_def)
  from u show "document1 = restoreFromMemento (last (undoStack mgr)) document"
    and "undoStack mgr1 = butlast (undoStack mgr)"
    and "redoStack mgr1 = redoStack mgr @ [createMemento now document]"
    and "state (last (redoStack mgr1)) = getState document"
    by (auto simp: undo_nonempty [OF ne])
  from u show "redo now' document1 mgr1 =
      (True, document, mgr\<lparr>undoStack := butlast (undoStack mgr) @ [createMemento now' document1]\<rparr>)"
    by (auto simp: undo_nonempty [OF ne] redo_nonempty)
  from u have "map state (butlast (undoStack mgr) @ [createMemento now' document1]) =
      map state (butlast (undoStack mgr) @ [last (undoStack mgr)])"
    by (auto simp: undo_nonempty [OF ne])
  with ne show "map state (butlast (undoStack mgr) @ [createMemento now' document1]) =
      map state (undoStack mgr)"
    by simp
next
  assume r: "redo now document mgr = (True, document1, mgr1)"
  then have ne: "redoStack mgr \<noteq> []"
    by (auto simp: redo_def)
  from r show "document1 = restoreFromMemento (last (redoStack mgr)) document"
    and "redoStack mgr1 = butlast (redoStack mgr)"
    and "undoStack mgr1 = undoStack mgr @ [createMemento now document]"
    and "state (last (undoStack mgr1)) = getState document"
    by (auto simp: redo_nonempty [OF ne])
  from r show "undo now' document1 mgr1 =
      (True, document, mgr\<lparr>redoStack := butlast (redoStack mgr) @ [createMemento now' document1]\<rparr>)"
    by (auto simp: redo_nonempty [OF ne] undo_nonempty)
  from r have "map state (butlast (redoStack mgr) @ [createMemento now' document1]) =
      map state (butlast (redoStack mgr) @ [last (redoStack mgr)])"
    by (auto simp: redo_nonempty [OF ne])
  with ne show "map state (butlast (redoStack mgr) @ [createMemento now' document1]) =
      map state (redoStack mgr)"
    by simp
qed

theorem undo_redo_inverse_witness:
  "undo 4 doc_C saved_ABC = (True, fst (snd undone_once), snd (snd undone_once)) \<and>
   redo 5 (fst (snd undone_once)) (snd (snd undone_once)) =
     (True, doc_C,
      saved_ABC\<lparr>undoStack := butlast (undoStack saved_ABC) @
                   [createMemento 5 (fst (snd undone_once))]\<rparr>) \<and>
   redo 5 (fst (snd undone_once)) (snd (snd undone_once)) =
     (True, fst (snd redone_once), snd (snd redone_once)) \<and>
   undo 6 (fst (snd redone_once)) (snd (snd redone_once)) =
     (True, fst (snd undone_once),
      (snd (snd undone_once))\<lparr>redoStack := butlast (redoStack (snd (snd undone_once))) @
                   [createMemento 6 (fst (snd redone_once))]\<rparr>)"
proof -
  have h1: "undo 4 doc_C saved_ABC = (True, fst (snd undone_once), snd (snd undone_once))"
    using undone_once_eq by (simp add: undone_once_def)
  have h2: "redo 5 (fst (snd undone_once)) (snd (snd undone_once)) =
     (True, fst (snd redone_once), snd (snd redone_once))"
    using redone_once_eq by (simp add: redone_once_def)
  from undo_redo_inverse [where now = 4 and document = doc_C and mgr = saved_ABC
      and ?document1.0 = "fst (snd undone_once)" and ?mgr1.0 = "snd (snd undone_once)"
      and now' = 5] h1
    undo_redo_inverse [where now = 5 and document = "fst (snd undone_once)"
      and mgr = "snd (snd undone_once)"
      and ?document1.0 = "fst (snd redone_once)" and ?mgr1.0 = "snd (snd redone_once)"
      and now' = 6] h2
  show ?thesis by simp
qed

subsection \<open>Frame properties\<close>

text \<open>
  C9: a successful \<open>restoreCheckpoint\<close> leaves the checkpoint map as it was: the snapshot
  stored under the name is still there, so restoring the same name again right away
  succeeds and applies the same snapshot (which leaves the document as the first restore
  made it).
\<close>

theorem restoreCheckpoint_keeps_checkpoints:
  "restoreCheckpoint now name document mgr = (True, document1, mgr1) \<longrightarrow>
     checkpoints mgr1 = checkpoints mgr \<and>
     (\<exists>memento. Map_get (checkpoints mgr) name = Some memento \<and>
        Map_get (checkpoints mgr1) name = Some memento \<and>
        document1 = restoreFromMemento memento document \<and>
        restoreCheckpoint now' name document1 mgr1 =
          (True, restoreFromMemento memento document1,
           mgr1\<lparr>undoStack := undoStack mgr1 @ [createMemento now' document1]\<rparr>) \<and>
        restoreFromMemento memento document1 = document1)"
  by (auto simp: restoreCheckpoint_def Let_def split: option.splits)

theorem restoreCheckpoint_keeps_checkpoints_witness:
  "restoreCheckpoint 2 ''v1'' doc_A checkpoint_demo =
     (True, doc_v1, checkpoint_demo\<lparr>undoStack := [createMemento 2 doc_A], redoStack := []\<rparr>) \<and>
   checkpoints (checkpoint_demo\<lparr>undoStack := [createMemento 2 doc_A], redoStack := []\<rparr>) =
     checkpoints checkpoint_demo \<and>
   restoreCheckpoint 3 ''v1'' doc_v1
       (checkpoint_demo\<lparr>undoStack := [createMemento 2 doc_A], redoStack := []\<rparr>) =
     (True, doc_v1,
      checkpoint_demo\<lparr>undoStack := [createMemento 2 doc_A, createMemento 3 doc_v1],
                      redoStack := []\<rparr>)"
proof -
  have h: "restoreCheckpoint 2 ''v1'' doc_A checkpoint_demo =
     (True, doc_v1, checkpoint_demo\<lparr>undoStack := [createMemento 2 doc_A], redoStack := []\<rparr>)"
    by (simp add: restoreCheckpoint_def checkpoint_demo_fields Let_def)
  from restoreCheckpoint_keeps_checkpoints [of 2 "''v1''" doc_A checkpoint_demo doc_v1
      "checkpoint_demo\<lparr>undoStack := [createMemento 2 doc_A], redoStack := []\<rparr>" 3] h
  show ?thesis by (auto simp: checkpoint_demo_fields)
qed

text \<open>
  C10: a successful undo and a successful redo each keep the sum of the lengths of the
  undo and redo sequences (one entry leaves one sequence, one snapshot enters the other)
  and leave the checkpoint map as it was.
\<close>

theorem undo_redo_preserve_total_length:
  "(undo now document mgr = (True, document1, mgr1) \<longrightarrow>
      length (undoStack mgr1) + length (redoStack mgr1) =
        length (undoStack mgr) + length (redoStack mgr) \<and>
      length (undoStack mgr1) + 1 = length (undoStack mgr) \<and>
      length (redoStack mgr1) = length (redoStack mgr) + 1 \<and>
      checkpoints mgr1 = checkpoints mgr) \<and>
   (redo now document mgr = (True, document1, mgr1) \<longrightarrow>
      length (undoStack mgr1) + length (redoStack mgr1) =
        length (undoStack mgr) + length (redoStack mgr) \<and>
      length (redoStack mgr1) + 1 = length (redoStack mgr) \<and>
      length (undoStack mgr1) = length (undoStack mgr) + 1 \<and>
      checkpoints mgr1 = checkpoints mgr)"
  by (auto simp: undo_def redo_def Let_def split: if_splits)

theorem undo_redo_preserve_total_length_witness:
  "undo 4 doc_C saved_ABC = (True, fst (snd undone_once), snd (snd undone_once)) \<and>
   length (undoStack (snd (snd undone_once))) + length (redoStack (snd (snd undone_once))) = 3 \<and>
   checkpoints (snd (snd undone_once)) = checkpoints saved_ABC \<and>
   redo 5 (fst (snd undone_once)) (snd (snd undone_once)) =
     (True, fst (snd redone_once), snd (snd redone_once)) \<and>
   length (undoStack (snd (snd redone_once))) + length (redoStack (snd (snd redone_once))) = 3 \<and>
   checkpoints (snd (snd redone_once)) = checkpoints saved_ABC"
proof -
  have h1: "undo 4 doc_C saved_ABC = (True, fst (snd undone_once), snd (snd undone_once))"
    using undone_once_eq by (simp add: undone_once_def)
  have h2: "redo 5 (fst (snd undone_once)) (snd (snd undone_once)) =
     (True, fst (snd redone_once), snd (snd redone_once))"
    using redone_once_eq by (simp add: redone_once_def)
  from undo_redo_preserve_total_length [where now = 4 and document = doc_C and mgr = saved_ABC
      and ?document1.0 = "fst (snd undone_once)" and ?mgr1.0 = "snd (snd undone_once)"] h1
    undo_redo_preserve_total_length [where now = 5 and document = "fst (snd undone_once)"
      and mgr = "snd (snd undone_once)"
      and ?document1.0 = "fst (snd redone_once)" and ?mgr1.0 = "snd (snd redone_once)"] h2
  show ?thesis by (simp add: saved_ABC_stacks)
qed

end
